theory Spec2Isabelle
  imports Main
begin

section \<open>GrafanaConnect: query dispatch and response normalisation\<close>

text \<open>
  A shallow embedding of the Go backend of the plugin: \<^verbatim>\<open>pkg/models/models.go\<close>,
  \<^verbatim>\<open>pkg/plugin/datasource.go\<close>, \<^verbatim>\<open>pkg/plugin/prometheus.go\<close>,
  \<^verbatim>\<open>pkg/plugin/restapi.go\<close> and the Loki handler. Go strings are byte strings
  (\<^typ>\<open>string\<close>), Go maps are association lists (Go leaves the order of a
  \<^verbatim>\<open>range\<close> over a map open: a map ranged over once is ranged over in list order,
  and every statement below is made for an arbitrary list; a map ranged over twice gets
  an order for each range from the environment), errors are the left summand of a sum, a
  panic is a value of its own, and whatever lies outside the
  repository and cannot be computed from its arguments alone (the network, the JSON
  decoder, float64 arithmetic, the clock) is a field of an environment record.
\<close>

subsection \<open>Go library functions the handlers call\<close>

text \<open>
  A \<^verbatim>\<open>time.Time\<close> is the instant it denotes, in nanoseconds since the Unix epoch.
  \<^verbatim>\<open>time.Unix(sec, nsec)\<close> builds an instant, \<^verbatim>\<open>t.Unix()\<close> reads its
  seconds (rounded down), \<^verbatim>\<open>t.Equal(u)\<close> is equality of instants. The zero value
  of \<^verbatim>\<open>time.Time\<close>, which Go puts into every slot of a fresh
  \<^verbatim>\<open>make([]time.Time, n)\<close>, is January 1 of year 1, 00:00:00 UTC: 62135596800
  seconds before the Unix epoch.
\<close>

type_synonym gotime = int

definition time_Unix :: "int \<Rightarrow> int \<Rightarrow> gotime" where
  "time_Unix sec nsec = sec * 1000000000 + nsec"

definition Unix :: "gotime \<Rightarrow> int" where
  "Unix t = t div 1000000000"

definition zeroTime :: gotime where
  "zeroTime = time_Unix (- 62135596800) 0"

text \<open>int64 arithmetic wraps around.\<close>

definition wrap64 :: "int \<Rightarrow> int" where
  "wrap64 x = (x + 9223372036854775808) mod 18446744073709551616 - 9223372036854775808"

definition UnixNano :: "gotime \<Rightarrow> int" where
  "UnixNano t = wrap64 t"

text \<open>\<^verbatim>\<open>strconv.FormatInt(i, 10)\<close>.\<close>

function digits :: "int \<Rightarrow> string" where
  "digits n = (if n < 10 then [''0123456789'' ! nat n]
               else digits (n div 10) @ [''0123456789'' ! nat (n mod 10)])"
  by pat_completeness auto
termination
  by (relation "measure nat") auto

declare digits.simps [simp del]

definition FormatInt :: "int \<Rightarrow> string" where
  "FormatInt i = (if i < 0 then CHR ''-'' # digits (- i) else digits i)"

text \<open>
  \<^verbatim>\<open>strconv.ParseInt(s, 10, 64)\<close>: an optional sign, then one decimal digit or more
  and nothing else, and a value that fits an int64; \<open>None\<close> is a non-nil error.
\<close>

definition isDigit :: "char \<Rightarrow> bool" where
  "isDigit c = (c \<in> set ''0123456789'')"

definition digitVal :: "char \<Rightarrow> int" where
  "digitVal c = of_char c - 48"

definition ParseUint :: "string \<Rightarrow> int option" where
  "ParseUint s =
     (if s = [] then None
      else if list_all isDigit s then
        (let n = foldl (\<lambda>a c. 10 * a + digitVal c) 0 s
         in if n < 18446744073709551616 then Some n else None)
      else None)"

definition ParseInt :: "string \<Rightarrow> int option" where
  "ParseInt s =
     (case s of
        [] \<Rightarrow> None
      | c # r \<Rightarrow>
          (let neg = (c = CHR ''-'');
               body = (if c = CHR ''+'' \<or> c = CHR ''-'' then r else s)
           in case ParseUint body of
                None \<Rightarrow> None
              | Some un \<Rightarrow>
                  if neg then (if 9223372036854775808 < un then None else Some (- un))
                  else (if 9223372036854775808 \<le> un then None else Some un)))"

text \<open>\<^verbatim>\<open>strings.TrimSuffix(s, "/")\<close> and \<^verbatim>\<open>strings.TrimPrefix(s, "/")\<close>: each
  removes one occurrence, when there is one.\<close>

definition TrimSuffix :: "string \<Rightarrow> string \<Rightarrow> string" where
  "TrimSuffix s suffix =
     (if length suffix \<le> length s \<and> drop (length s - length suffix) s = suffix
      then take (length s - length suffix) s else s)"

definition TrimPrefix :: "string \<Rightarrow> string \<Rightarrow> string" where
  "TrimPrefix s pre =
     (if take (length pre) s = pre then drop (length pre) s else s)"

text \<open>
  \<^verbatim>\<open>textproto.CanonicalMIMEHeaderKey\<close>, which \<^verbatim>\<open>Header.Set\<close> and
  \<^verbatim>\<open>Header.Get\<close> apply to the key: a key made of token bytes only gets an upper-case
  letter first and after every hyphen and lower-case letters elsewhere; any other key is
  left as it is.
\<close>

definition isLower :: "char \<Rightarrow> bool" where
  "isLower c = (97 \<le> (of_char c :: nat) \<and> (of_char c :: nat) \<le> 122)"

definition isUpper :: "char \<Rightarrow> bool" where
  "isUpper c = (65 \<le> (of_char c :: nat) \<and> (of_char c :: nat) \<le> 90)"

definition validHeaderFieldByte :: "char \<Rightarrow> bool" where
  "validHeaderFieldByte c =
     (isLower c \<or> isUpper c \<or> isDigit c \<or> c \<in> set ''!#$%&*+-.^_`|~'' \<or> of_char c = (39::nat))"

fun canonicalise :: "bool \<Rightarrow> string \<Rightarrow> string" where
  "canonicalise upper [] = []"
| "canonicalise upper (c # cs) =
     (let c' = (if upper \<and> isLower c then char_of (of_char c - (32::nat))
                else if \<not> upper \<and> isUpper c then char_of (of_char c + (32::nat))
                else c)
      in c' # canonicalise (c' = CHR ''-'') cs)"

definition CanonicalMIMEHeaderKey :: "string \<Rightarrow> string" where
  "CanonicalMIMEHeaderKey s =
     (if list_all validHeaderFieldByte s then canonicalise True s else s)"

text \<open>\<^verbatim>\<open>base64.StdEncoding.EncodeToString\<close>, on the bytes of the string.\<close>

definition encodeStd :: string where
  "encodeStd = ''ABCDEFGHIJKLMNOPQRSTUVWXYZabcdefghijklmnopqrstuvwxyz0123456789+/''"

fun base64 :: "nat list \<Rightarrow> string" where
  "base64 (a # b # c # rest) =
     [encodeStd ! (a div 4), encodeStd ! ((a mod 4) * 16 + b div 16),
      encodeStd ! ((b mod 16) * 4 + c div 64), encodeStd ! (c mod 64)] @ base64 rest"
| "base64 [a, b] =
     [encodeStd ! (a div 4), encodeStd ! ((a mod 4) * 16 + b div 16),
      encodeStd ! ((b mod 16) * 4), CHR ''='']"
| "base64 [a] =
     [encodeStd ! (a div 4), encodeStd ! ((a mod 4) * 16), CHR ''='', CHR ''='']"
| "base64 [] = []"

definition EncodeToString :: "string \<Rightarrow> string" where
  "EncodeToString s = base64 (map of_char s)"

subsection \<open>HTTP requests\<close>

text \<open>
  An \<^verbatim>\<open>http.Request\<close>, as far as the handlers touch it. The header is Go's
  \<^verbatim>\<open>map[string][]string\<close>; \<^verbatim>\<open>Set\<close> replaces the values under the canonical
  key, \<^verbatim>\<open>Get\<close> reads the first value under it, or the empty string.
\<close>

record Request =
  Method :: string
  URL :: string
  Header :: "string \<rightharpoonup> string list"
  Body :: "string option"

definition Header_Set :: "string \<Rightarrow> string \<Rightarrow> Request \<Rightarrow> Request" where
  "Header_Set key val req =
     req\<lparr>Header := (Header req)(CanonicalMIMEHeaderKey key \<mapsto> [val])\<rparr>"

definition Header_Get :: "Request \<Rightarrow> string \<Rightarrow> string" where
  "Header_Get req key =
     (case Header req (CanonicalMIMEHeaderKey key) of
        None \<Rightarrow> []
      | Some [] \<Rightarrow> []
      | Some (v # vs) \<Rightarrow> v)"

text \<open>\<^verbatim>\<open>req.SetBasicAuth(username, password)\<close>.\<close>

definition SetBasicAuth :: "string \<Rightarrow> string \<Rightarrow> Request \<Rightarrow> Request" where
  "SetBasicAuth username password req =
     Header_Set ''Authorization''
       (''Basic '' @ EncodeToString (username @ '':'' @ password)) req"

subsection \<open>models.go\<close>

record DataSourceConfig =
  PrometheusURL :: string
  LokiURL :: string
  RESTURL :: string
  APIKey :: string
  BasicAuthUser :: string
  BasicAuthPass :: string
  BearerToken :: string
  RESTHeaders :: "(string \<times> string) list"

text \<open>
  The per-query header map and identifier of \<^verbatim>\<open>QueryModel\<close> carry the suffix
  \<open>_q\<close>: the configuration has a \<^verbatim>\<open>RESTHeaders\<close> too, and the SDK's query a
  \<^verbatim>\<open>RefID\<close>.
\<close>

record QueryModel =
  QueryType :: string
  PromQL :: string
  LogQL :: string
  RESTEndpoint :: string
  RESTMethod :: string
  RESTHeaders_q :: "(string \<times> string) list"
  RESTBody :: string
  RefID_q :: string

definition QueryTypePrometheus :: string where "QueryTypePrometheus = ''prometheus''"
definition QueryTypeLoki :: string where "QueryTypeLoki = ''loki''"
definition QueryTypeREST :: string where "QueryTypeREST = ''rest''"

subsection \<open>addAuthHeaders\<close>

text \<open>
  The three handlers carry the same method, line for line
  (\<^verbatim>\<open>prometheus.go\<close> 226-234, \<^verbatim>\<open>restapi.go\<close> 352-360, the Loki handler 228-236).
\<close>

definition addAuthHeaders :: "DataSourceConfig \<Rightarrow> Request \<Rightarrow> Request" where
  "addAuthHeaders config req =
     (if BearerToken config \<noteq> [] then
        Header_Set ''Authorization'' (''Bearer '' @ BearerToken config) req
      else if APIKey config \<noteq> [] then
        Header_Set ''X-API-Key'' (APIKey config) req
      else if BasicAuthUser config \<noteq> [] \<and> BasicAuthPass config \<noteq> [] then
        SetBasicAuth (BasicAuthUser config) (BasicAuthPass config) req
      else req)"

subsection \<open>JSON values, frames, queries\<close>

text \<open>
  What \<^verbatim>\<open>json.Unmarshal\<close> puts into an \<^verbatim>\<open>interface{}\<close>: nil, bool, float64,
  string, \<^verbatim>\<open>[]interface{}\<close> and \<^verbatim>\<open>map[string]interface{}\<close>. The type
  \<open>'f\<close> stands for float64, whose arithmetic is not modelled: the environment supplies
  the few float64 operations the handlers use.
\<close>

datatype 'f json =
    JNull
  | JBool bool
  | JNum 'f
  | JStr string
  | JArr "'f json list"
  | JObj "(string \<times> 'f json) list"

text \<open>
  The SDK's \<^verbatim>\<open>data.Field\<close> and \<^verbatim>\<open>data.Frame\<close>: a field has a name, labels, a
  vector of values of one kind and, from its \<^verbatim>\<open>Config\<close>, a display name; a frame has
  a name, fields and, when \<^verbatim>\<open>Meta\<close> is set, a type and the custom labels.
  The vector of a field holds values of one of the SDK's element types; the handlers
  use \<^verbatim>\<open>[]time.Time\<close>, \<^verbatim>\<open>[]float64\<close> and \<^verbatim>\<open>[]string\<close>.
\<close>

datatype 'f vector =
    Times "gotime list"
  | Floats "'f list"
  | Strings "string list"

fun Len :: "'f vector \<Rightarrow> nat" where
  "Len (Times ts) = length ts"
| "Len (Floats vs) = length vs"
| "Len (Strings ss) = length ss"

text \<open>
  A Go call either returns or panics. Nothing in the repository recovers from a panic,
  so a panic in a handler leaves \<^verbatim>\<open>QueryData\<close> without a result.
\<close>

datatype 'a go = Panic | Return 'a

record 'f Field =
  Name :: string
  Labels :: "(string \<times> string) list"
  Vals :: "'f vector"
  DisplayNameFromDS :: "string option"

text \<open>
  \<^verbatim>\<open>data.NewField(name, labels, values)\<close> builds the field when \<open>values\<close> is a slice of
  one of the SDK's element types, and panics (unsupported type) on any other slice.
  \<open>NewField\<close> is the call on \<^verbatim>\<open>[]time.Time\<close>, \<^verbatim>\<open>[]float64\<close> and
  \<^verbatim>\<open>[]string\<close>. \<open>NewField_interface\<close> is the call on \<^verbatim>\<open>[]interface{}\<close>, which
  is none of the element types: it panics whatever the name, the labels and the values
  (\<^verbatim>\<open>restapi.go\<close> lines 172, 179, 272 and 283).
\<close>

definition NewField :: "string \<Rightarrow> (string \<times> string) list \<Rightarrow> 'f vector \<Rightarrow> 'f Field" where
  "NewField name labels values =
     \<lparr>Name = name, Labels = labels, Vals = values, DisplayNameFromDS = None\<rparr>"

definition NewField_interface ::
    "string \<Rightarrow> (string \<times> string) list \<Rightarrow> 'f json list \<Rightarrow> 'f Field go" where
  "NewField_interface name labels values = Panic"

datatype FrameType = FrameTypeTimeSeriesMany | FrameTypeLogLines

record FrameMeta =
  Type :: FrameType
  Custom :: "(string \<times> string) list option"

record 'f Frame =
  FrameName :: string
  Fields :: "'f Field list"
  Meta :: "FrameMeta option"

definition NewFrame :: "string \<Rightarrow> 'f Field list \<Rightarrow> 'f Frame" where
  "NewFrame name fs = \<lparr>FrameName = name, Fields = fs, Meta = None\<rparr>"

text \<open>A \<^verbatim>\<open>backend.DataResponse\<close> is an error or the frames.\<close>

type_synonym 'f DataResponse = "string + 'f Frame list"

text \<open>
  A \<^verbatim>\<open>backend.DataQuery\<close>: its identifier, time range, interval (a
  \<^verbatim>\<open>time.Duration\<close>, in nanoseconds) and raw JSON.
\<close>

record DataQuery =
  RefID :: string
  From :: gotime
  To :: gotime
  Interval :: int
  JSON :: string

record 'f PrometheusResult =
  Metric :: "(string \<times> string) list"
  Values :: "'f json list list"
  Value :: "'f json list"

record 'f PrometheusQueryResponse =
  Status :: string
  ResultType :: string
  Result :: "'f PrometheusResult list"

record LokiResult =
  Stream :: "(string \<times> string) list"
  Values_l :: "string list list"

record LokiQueryResponse =
  Status_l :: string
  ResultType_l :: string
  Result_l :: "LokiResult list"

record Response =
  StatusCode :: int
  RespBody :: string
  ReadErr :: "string option"

text \<open>
  The environment: the library calls whose result is not a function of the source under
  verification. \<open>Do i req\<close> is what \<^verbatim>\<open>client.Do(req)\<close> returns for the query at
  position \<open>i\<close> of the batch (the network may answer the same request differently each
  time); the decoders read a response body; \<open>ParseFloat\<close> is
  \<^verbatim>\<open>strconv.ParseFloat(s, 64)\<close>, \<open>int64\<close> the conversion \<^verbatim>\<open>int64(x)\<close> of a
  float64, \<open>gt1e12\<close> the comparison \<^verbatim>\<open>x > 1e12\<close>, \<open>Seconds\<close> is
  \<^verbatim>\<open>Duration.Seconds\<close>; \<open>Encode\<close> is \<^verbatim>\<open>url.Values.Encode\<close>; \<open>NewRequestErr\<close>
  is the error, if any, of \<^verbatim>\<open>http.NewRequestWithContext\<close> for a method and a URL;
  \<open>ParseRFC3339\<close> is \<^verbatim>\<open>time.Parse(time.RFC3339, s)\<close> and \<open>Now\<close> the clock.
  Go visits the entries of a map in an order of its choosing, chosen anew by every
  \<^verbatim>\<open>range\<close> statement: \<open>RangeOrder k obj\<close> is the order in which the \<open>k\<close>-th range
  statement of \<^verbatim>\<open>arrayToDataFrame\<close> visits the entries of \<open>obj\<close>, a permutation of
  them.
\<close>

record 'f env =
  UnmarshalQuery :: "string \<Rightarrow> string + QueryModel"
  UnmarshalJSON :: "string \<Rightarrow> string + 'f json"
  DecodePrometheus :: "Response \<Rightarrow> string + 'f PrometheusQueryResponse"
  DecodeLoki :: "Response \<Rightarrow> string + LokiQueryResponse"
  ParseFloat :: "string \<Rightarrow> string + 'f"
  int64 :: "'f \<Rightarrow> int"
  gt1e12 :: "'f \<Rightarrow> bool"
  Seconds :: "int \<Rightarrow> 'f"
  Encode :: "(string \<rightharpoonup> string list) \<Rightarrow> string"
  ToUpper :: "string \<Rightarrow> string"
  NewRequestErr :: "string \<Rightarrow> string \<Rightarrow> string option"
  Do :: "nat \<Rightarrow> Request \<Rightarrow> string + Response"
  ParseRFC3339 :: "string \<Rightarrow> gotime option"
  Now :: gotime
  RangeOrder :: "nat \<Rightarrow> (string \<times> 'f json) list \<Rightarrow> (string \<times> 'f json) list"

definition NewRequestWithContext ::
    "'f env \<Rightarrow> string \<Rightarrow> string \<Rightarrow> string option \<Rightarrow> string + Request" where
  "NewRequestWithContext E method url body =
     (case NewRequestErr E method url of
        Some err \<Rightarrow> Inl err
      | None \<Rightarrow> Inr \<lparr>Method = method, URL = url, Header = Map.empty, Body = body\<rparr>)"

subsection \<open>prometheus.go\<close>

definition isRangeQuery :: "DataQuery \<Rightarrow> bool" where
  "isRangeQuery query = (From query \<noteq> To query)"

text \<open>
  \<^verbatim>\<open>int64(step.Seconds())\<close>. \<^verbatim>\<open>Seconds\<close> adds the whole seconds and the
  nanosecond remainder over \<open>1e9\<close> as float64 values; with no remainder that is the
  whole seconds, exactly, and the conversion gives them back. Any other duration goes
  through the environment's float64.
\<close>

definition Second :: int where
  "Second = 1000000000"

definition stepSeconds :: "'f env \<Rightarrow> int \<Rightarrow> int" where
  "stepSeconds E step =
     (if step mod Second = 0 then step div Second else int64 E (Seconds E step))"

definition promURL :: "DataSourceConfig \<Rightarrow> DataQuery \<Rightarrow> string" where
  "promURL config query =
     (if isRangeQuery query then PrometheusURL config @ ''/api/v1/query_range''
      else PrometheusURL config @ ''/api/v1/query'')"

definition promParams :: "'f env \<Rightarrow> DataQuery \<Rightarrow> QueryModel \<Rightarrow> (string \<rightharpoonup> string list)" where
  "promParams E query queryModel =
     (let params = Map.empty(''query'' \<mapsto> [PromQL queryModel])
      in if isRangeQuery query then
           (let step = (if Interval query = 0 then 15 * Second else Interval query)
            in params(''start'' \<mapsto> [FormatInt (Unix (From query))],
                      ''end'' \<mapsto> [FormatInt (Unix (To query))],
                      ''step'' \<mapsto> [FormatInt (stepSeconds E step) @ ''s'']))
         else params(''time'' \<mapsto> [FormatInt (Unix (To query))]))"

text \<open>Lines 50-88 of \<^verbatim>\<open>executeQuery\<close>: the request handed to \<^verbatim>\<open>client.Do\<close>.\<close>

definition promRequest ::
    "'f env \<Rightarrow> DataSourceConfig \<Rightarrow> DataQuery \<Rightarrow> QueryModel \<Rightarrow> string + Request" where
  "promRequest E config query queryModel =
     (case NewRequestWithContext E ''GET''
             (promURL config query @ ''?'' @ Encode E (promParams E query queryModel)) None of
        Inl err \<Rightarrow> Inl (''failed to create request: '' @ err)
      | Inr req \<Rightarrow> Inr (addAuthHeaders config req))"

text \<open>
  The loop over \<^verbatim>\<open>result.Values\<close> (lines 147-169): \<open>i\<close> is the index, \<open>tms\<close> and
  \<open>values\<close> the two slices \<^verbatim>\<open>times\<close> and \<^verbatim>\<open>values\<close> made before the loop.
\<close>

fun rangeValues ::
    "'f env \<Rightarrow> nat \<Rightarrow> 'f json list list \<Rightarrow> gotime list \<Rightarrow> 'f list
       \<Rightarrow> string + (gotime list \<times> 'f list)" where
  "rangeValues E i [] tms values = Inr (tms, values)"
| "rangeValues E i (val # rest) tms values =
     (if length val < 2 then rangeValues E (Suc i) rest tms values
      else case val ! 0 of
        JNum ts \<Rightarrow>
          (let tms' = tms[i := time_Unix (int64 E ts) 0]
           in case val ! 1 of
                JStr valStr \<Rightarrow>
                  (case ParseFloat E valStr of
                     Inl err \<Rightarrow> Inl (''failed to parse value: '' @ err)
                   | Inr v \<Rightarrow> rangeValues E (Suc i) rest tms' (values[i := v]))
              | _ \<Rightarrow> Inl ''invalid value format'')
      | _ \<Rightarrow> Inl ''invalid timestamp format'')"

definition buildSeriesName :: "(string \<times> string) list \<Rightarrow> string" where
  "buildSeriesName metric =
     (case map_of metric ''__name__'' of
        Some name \<Rightarrow> name
      | None \<Rightarrow>
          (case map_of metric ''instance'' of
             Some instance \<Rightarrow> instance
           | None \<Rightarrow> ''series''))"

text \<open>Lines 198-206: the frame of one series, from its two fields.\<close>

definition seriesFrame :: "(string \<times> string) list \<Rightarrow> 'f Field \<Rightarrow> 'f Field \<Rightarrow> 'f Frame" where
  "seriesFrame metric timeField valueField =
     (NewFrame [] [timeField, valueField\<lparr>DisplayNameFromDS := Some (buildSeriesName metric)\<rparr>])
       \<lparr>Meta := Some \<lparr>Type = FrameTypeTimeSeriesMany, Custom = None\<rparr>\<rparr>"

text \<open>The body of the loop over \<^verbatim>\<open>resp.Data.Result\<close> (lines 139-208).\<close>

definition resultFrame ::
    "('f::zero) env \<Rightarrow> bool \<Rightarrow> 'f PrometheusResult \<Rightarrow> string + 'f Frame" where
  "resultFrame E isRange result =
     (if isRange then
        (case rangeValues E 0 (Values result)
                (replicate (length (Values result)) zeroTime)
                (replicate (length (Values result)) 0) of
           Inl err \<Rightarrow> Inl err
         | Inr (tms, values) \<Rightarrow>
             Inr (seriesFrame (Metric result)
                    (NewField ''time'' [] (Times tms))
                    (NewField ''value'' (Metric result) (Floats values))))
      else if length (Value result) < 2 then Inl ''invalid instant query response''
      else case Value result ! 0 of
        JNum ts \<Rightarrow>
          (case Value result ! 1 of
             JStr valStr \<Rightarrow>
               (case ParseFloat E valStr of
                  Inl err \<Rightarrow> Inl (''failed to parse value: '' @ err)
                | Inr v \<Rightarrow>
                    Inr (seriesFrame (Metric result)
                           (NewField ''time'' [] (Times [time_Unix (int64 E ts) 0]))
                           (NewField ''value'' (Metric result) (Floats [v]))))
           | _ \<Rightarrow> Inl ''invalid value format'')
      | _ \<Rightarrow> Inl ''invalid timestamp format'')"

fun PrometheusHandler_convertToDataFrames ::
    "('f::zero) env \<Rightarrow> 'f PrometheusResult list \<Rightarrow> bool \<Rightarrow> 'f Frame list
       \<Rightarrow> string + 'f Frame list" where
  "PrometheusHandler_convertToDataFrames E [] isRange frames = Inr frames"
| "PrometheusHandler_convertToDataFrames E (result # rest) isRange frames =
     (case resultFrame E isRange result of
        Inl err \<Rightarrow> Inl err
      | Inr frame \<Rightarrow> PrometheusHandler_convertToDataFrames E rest isRange (frames @ [frame]))"

definition PrometheusHandler_executeQuery ::
    "('f::zero) env \<Rightarrow> nat \<Rightarrow> DataSourceConfig \<Rightarrow> DataQuery \<Rightarrow> QueryModel
       \<Rightarrow> 'f DataResponse" where
  "PrometheusHandler_executeQuery E i config query queryModel =
     (case promRequest E config query queryModel of
        Inl err \<Rightarrow> Inl err
      | Inr req \<Rightarrow>
          (case Do E i req of
             Inl err \<Rightarrow> Inl (''failed to execute request: '' @ err)
           | Inr resp \<Rightarrow>
               if StatusCode resp \<noteq> 200 then
                 Inl (''Prometheus API returned status '' @ FormatInt (StatusCode resp)
                        @ '': '' @ RespBody resp)
               else
                 (case DecodePrometheus E resp of
                    Inl err \<Rightarrow> Inl (''failed to parse response: '' @ err)
                  | Inr promResp \<Rightarrow>
                      if Status promResp \<noteq> ''success'' then
                        Inl (''Prometheus query failed: '' @ Status promResp)
                      else
                        (case PrometheusHandler_convertToDataFrames E (Result promResp)
                                (isRangeQuery query) [] of
                           Inl err \<Rightarrow> Inl (''failed to convert response: '' @ err)
                         | Inr frames \<Rightarrow> Inr frames))))"

definition handlePrometheusQuery ::
    "('f::zero) env \<Rightarrow> nat \<Rightarrow> DataSourceConfig \<Rightarrow> DataQuery \<Rightarrow> QueryModel
       \<Rightarrow> 'f DataResponse" where
  "handlePrometheusQuery E i config query queryModel =
     (if PrometheusURL config = [] then Inl ''Prometheus URL not configured''
      else if PromQL queryModel = [] then Inl ''PromQL query is required''
      else PrometheusHandler_executeQuery E i config query queryModel)"

subsection \<open>The Loki handler\<close>

definition lokiParams :: "DataQuery \<Rightarrow> QueryModel \<Rightarrow> (string \<rightharpoonup> string list)" where
  "lokiParams query queryModel =
     Map.empty(''query'' \<mapsto> [LogQL queryModel],
               ''start'' \<mapsto> [FormatInt (UnixNano (From query))],
               ''end'' \<mapsto> [FormatInt (UnixNano (To query))],
               ''limit'' \<mapsto> [''1000''])"

definition lokiRequest ::
    "'f env \<Rightarrow> DataSourceConfig \<Rightarrow> DataQuery \<Rightarrow> QueryModel \<Rightarrow> string + Request" where
  "lokiRequest E config query queryModel =
     (case NewRequestWithContext E ''GET''
             (LokiURL config @ ''/loki/api/v1/query_range'' @ ''?''
                @ Encode E (lokiParams query queryModel)) None of
        Inl err \<Rightarrow> Inl (''failed to create request: '' @ err)
      | Inr req \<Rightarrow> Inr (addAuthHeaders config req))"

text \<open>
  The loop over \<^verbatim>\<open>result.Values\<close> (lines 161-179); \<open>tms\<close> and \<open>values\<close> are the
  slices \<^verbatim>\<open>times\<close> and \<^verbatim>\<open>values\<close>, empty before the loop. The warning the
  logger writes for a timestamp that does not parse is not part of the result.
\<close>

fun logValues ::
    "string list list \<Rightarrow> gotime list \<Rightarrow> string list \<Rightarrow> gotime list \<times> string list" where
  "logValues [] tms values = (tms, values)"
| "logValues (val # rest) tms values =
     (if length val < 2 then logValues rest tms values
      else case ParseInt (val ! 0) of
        None \<Rightarrow> logValues rest tms values
      | Some tsNano \<Rightarrow>
          logValues rest (tms @ [time_Unix 0 tsNano]) (values @ [val ! 1]))"

definition LokiHandler_buildSeriesName :: "(string \<times> string) list \<Rightarrow> string" where
  "LokiHandler_buildSeriesName labels =
     (case map_of labels ''job'' of
        Some job \<Rightarrow> job
      | None \<Rightarrow>
          (case map_of labels ''instance'' of
             Some instance \<Rightarrow> instance
           | None \<Rightarrow> (case labels of [] \<Rightarrow> ''logs'' | (k, v) # others \<Rightarrow> v)))"

text \<open>Lines 185-202: the frame of one stream.\<close>

definition streamFrame ::
    "(string \<times> string) list \<Rightarrow> gotime list \<Rightarrow> string list \<Rightarrow> 'f Frame" where
  "streamFrame labels tms values =
     (NewFrame []
        [NewField ''time'' [] (Times tms),
         (NewField ''value'' labels (Strings values))
           \<lparr>DisplayNameFromDS := Some (LokiHandler_buildSeriesName labels)\<rparr>])
       \<lparr>Meta := Some \<lparr>Type = FrameTypeLogLines, Custom = Some labels\<rparr>\<rparr>"

fun LokiHandler_convertToDataFrames ::
    "LokiResult list \<Rightarrow> 'f Frame list \<Rightarrow> string + 'f Frame list" where
  "LokiHandler_convertToDataFrames [] frames = Inr frames"
| "LokiHandler_convertToDataFrames (result # rest) frames =
     (case logValues (Values_l result) [] [] of
        (tms, values) \<Rightarrow>
          if length tms = 0 then LokiHandler_convertToDataFrames rest frames
          else LokiHandler_convertToDataFrames rest
                 (frames @ [streamFrame (Stream result) tms values]))"

definition LokiHandler_executeQuery ::
    "'f env \<Rightarrow> nat \<Rightarrow> DataSourceConfig \<Rightarrow> DataQuery \<Rightarrow> QueryModel \<Rightarrow> 'f DataResponse" where
  "LokiHandler_executeQuery E i config query queryModel =
     (case lokiRequest E config query queryModel of
        Inl err \<Rightarrow> Inl err
      | Inr req \<Rightarrow>
          (case Do E i req of
             Inl err \<Rightarrow> Inl (''failed to execute request: '' @ err)
           | Inr resp \<Rightarrow>
               if StatusCode resp \<noteq> 200 then
                 Inl (''Loki API returned status '' @ FormatInt (StatusCode resp)
                        @ '': '' @ RespBody resp)
               else
                 (case DecodeLoki E resp of
                    Inl err \<Rightarrow> Inl (''failed to parse response: '' @ err)
                  | Inr lokiResp \<Rightarrow>
                      if Status_l lokiResp \<noteq> ''success'' then
                        Inl (''Loki query failed: '' @ Status_l lokiResp)
                      else
                        (case LokiHandler_convertToDataFrames (Result_l lokiResp) [] of
                           Inl err \<Rightarrow> Inl (''failed to convert response: '' @ err)
                         | Inr frames \<Rightarrow> Inr frames))))"

definition handleLokiQuery ::
    "'f env \<Rightarrow> nat \<Rightarrow> DataSourceConfig \<Rightarrow> DataQuery \<Rightarrow> QueryModel \<Rightarrow> 'f DataResponse" where
  "handleLokiQuery E i config query queryModel =
     (if LokiURL config = [] then Inl ''Loki URL not configured''
      else if LogQL queryModel = [] then Inl ''LogQL query is required''
      else LokiHandler_executeQuery E i config query queryModel)"

subsection \<open>restapi.go\<close>

text \<open>Line 53-55 of \<^verbatim>\<open>executeQuery\<close>.\<close>

definition fullURL :: "DataSourceConfig \<Rightarrow> QueryModel \<Rightarrow> string" where
  "fullURL config queryModel =
     TrimSuffix (RESTURL config) ''/'' @ ''/'' @ TrimPrefix (RESTEndpoint queryModel) ''/''"

definition restMethod :: "'f env \<Rightarrow> QueryModel \<Rightarrow> string" where
  "restMethod E queryModel =
     (if ToUpper E (RESTMethod queryModel) = [] then ''GET''
      else ToUpper E (RESTMethod queryModel))"

definition bodyReader :: "'f env \<Rightarrow> QueryModel \<Rightarrow> string option" where
  "bodyReader E queryModel =
     (if RESTBody queryModel \<noteq> []
         \<and> (restMethod E queryModel = ''POST'' \<or> restMethod E queryModel = ''PUT''
              \<or> restMethod E queryModel = ''PATCH'')
      then Some (RESTBody queryModel) else None)"

text \<open>The loop of lines 79-81 over the query's own header map.\<close>

fun setHeaders :: "(string \<times> string) list \<Rightarrow> Request \<Rightarrow> Request" where
  "setHeaders [] req = req"
| "setHeaders ((k, v) # rest) req = setHeaders rest (Header_Set k v req)"

text \<open>Lines 44-90 of \<^verbatim>\<open>executeQuery\<close>: the request handed to \<^verbatim>\<open>client.Do\<close>.\<close>

definition restRequest ::
    "'f env \<Rightarrow> DataSourceConfig \<Rightarrow> QueryModel \<Rightarrow> string + Request" where
  "restRequest E config queryModel =
     (if RESTURL config = [] then Inl ''REST API base URL not configured''
      else case NewRequestWithContext E (restMethod E queryModel) (fullURL config queryModel)
                  (bodyReader E queryModel) of
        Inl err \<Rightarrow> Inl (''failed to create request: '' @ err)
      | Inr req \<Rightarrow>
          (let req1 = setHeaders (RESTHeaders_q queryModel) req;
               req2 = (if Header_Get req1 ''Content-Type'' = []
                          \<and> bodyReader E queryModel \<noteq> None
                       then Header_Set ''Content-Type'' ''application/json'' req1 else req1)
           in Inr (addAuthHeaders config req2)))"

text \<open>Go's integer division and remainder truncate toward zero.\<close>

definition quot :: "int \<Rightarrow> int \<Rightarrow> int" where
  "quot a b = sgn a * sgn b * (\<bar>a\<bar> div \<bar>b\<bar>)"

definition rem :: "int \<Rightarrow> int \<Rightarrow> int" where
  "rem a b = a - b * quot a b"

definition parseTimestamp :: "'f env \<Rightarrow> 'f json \<Rightarrow> gotime" where
  "parseTimestamp E val =
     (case val of
        JStr v \<Rightarrow>
          (case ParseRFC3339 E v of
             Some t \<Rightarrow> t
           | None \<Rightarrow>
               (case ParseInt v of
                  Some ts \<Rightarrow>
                    if 1000000000000 < ts
                    then time_Unix (quot ts 1000) (rem ts 1000 * 1000000)
                    else time_Unix ts 0
                | None \<Rightarrow> Now E))
      | JNum v \<Rightarrow>
          if gt1e12 E v
          then time_Unix (quot (int64 E v) 1000) (rem (int64 E v) 1000 * 1000000)
          else time_Unix (int64 E v) 0
      | _ \<Rightarrow> Now E)"

definition isNumeric :: "'f env \<Rightarrow> 'f json \<Rightarrow> bool" where
  "isNumeric E val =
     (case val of
        JNum v \<Rightarrow> True
      | JStr s \<Rightarrow> (case ParseFloat E s of Inl err \<Rightarrow> False | Inr f \<Rightarrow> True)
      | _ \<Rightarrow> False)"

definition toFloat64 :: "('f::zero) env \<Rightarrow> 'f json \<Rightarrow> 'f" where
  "toFloat64 E val =
     (case val of
        JNum v \<Rightarrow> v
      | JStr s \<Rightarrow> (case ParseFloat E s of Inl err \<Rightarrow> 0 | Inr f \<Rightarrow> f)
      | _ \<Rightarrow> 0)"

definition isTimeKey :: "string \<Rightarrow> bool" where
  "isTimeKey key =
     (key = ''time'' \<or> key = ''timestamp'' \<or> key = ''date'' \<or> key = ''ts''
        \<or> key = ''datetime'')"

text \<open>Lines 198-204: the first of the five keys the object has, in that order.\<close>

fun findTimestamp :: "(string \<times> 'f json) list \<Rightarrow> string list \<Rightarrow> 'f json option" where
  "findTimestamp obj [] = None"
| "findTimestamp obj (timeKey # others) =
     (case map_of obj timeKey of
        Some tsVal \<Rightarrow> Some tsVal
      | None \<Rightarrow> findTimestamp obj others)"

text \<open>\<^verbatim>\<open>Field.Append\<close> on a field of float64 values.\<close>

definition Append :: "'f Field \<Rightarrow> 'f \<Rightarrow> 'f Field" where
  "Append f v =
     (case Vals f of
        Floats vs \<Rightarrow> f\<lparr>Vals := Floats (vs @ [v])\<rparr>
      | _ \<Rightarrow> f)"

text \<open>Lines 216-223: one empty float64 field for every numeric entry of the object that
  is no timestamp key.\<close>

fun initFields ::
    "'f env \<Rightarrow> (string \<times> 'f json) list \<Rightarrow> 'f Field list \<Rightarrow> 'f Field list" where
  "initFields E [] valueFields = valueFields"
| "initFields E ((key, val) # rest) valueFields =
     (if isTimeKey key then initFields E rest valueFields
      else if isNumeric E val
      then initFields E rest (valueFields @ [NewField key [] (Floats [])])
      else initFields E rest valueFields)"

text \<open>Lines 227-238: the numeric entries of the object go to the fields by position.\<close>

fun addValues ::
    "('f::zero) env \<Rightarrow> (string \<times> 'f json) list \<Rightarrow> nat \<Rightarrow> 'f Field list \<Rightarrow> 'f Field list" where
  "addValues E [] fieldIdx valueFields = valueFields"
| "addValues E ((key, val) # rest) fieldIdx valueFields =
     (if isTimeKey key then addValues E rest fieldIdx valueFields
      else if isNumeric E val then
        (if fieldIdx < length valueFields
         then addValues E rest (Suc fieldIdx)
                (valueFields[fieldIdx := Append (valueFields ! fieldIdx) (toFloat64 E val)])
         else addValues E rest fieldIdx valueFields)
      else addValues E rest fieldIdx valueFields)"

text \<open>
  The loop over the array (lines 190-239); its state is the slice \<^verbatim>\<open>times\<close>, the
  flag \<^verbatim>\<open>hasTimeField\<close> and the slice \<^verbatim>\<open>valueFields\<close>. The variable
  \<^verbatim>\<open>timestamp\<close> is declared in the body, so every row starts from the zero time.
  The row of an object is row number \<open>length tms\<close>; of its two range statements over the
  object, the one of line 216 is range statement number \<open>2 * length tms\<close> and the one of
  line 228 number \<open>2 * length tms + 1\<close>, each with an order of its own.
\<close>

fun arrayRows ::
    "('f::zero) env \<Rightarrow> DataQuery \<Rightarrow> 'f json list \<Rightarrow> gotime list \<Rightarrow> bool \<Rightarrow> 'f Field list
       \<Rightarrow> gotime list \<times> bool \<times> 'f Field list" where
  "arrayRows E query [] tms hasTimeField valueFields = (tms, hasTimeField, valueFields)"
| "arrayRows E query (item # rest) tms hasTimeField valueFields =
     (case item of
        JObj obj \<Rightarrow>
          (let found = findTimestamp obj [''time'', ''timestamp'', ''date'', ''ts'', ''datetime''];
               timestamp0 = (case found of Some tsVal \<Rightarrow> parseTimestamp E tsVal
                                          | None \<Rightarrow> zeroTime);
               hasTimeField' = (case found of Some tsVal \<Rightarrow> True | None \<Rightarrow> hasTimeField);
               timestamp = (if hasTimeField' then timestamp0
                            else From query + wrap64 (int (length tms) * Interval query));
               valueFields' =
                 (if length valueFields = 0
                  then initFields E (RangeOrder E (2 * length tms) obj) valueFields
                  else valueFields)
           in arrayRows E query rest (tms @ [timestamp]) hasTimeField'
                (addValues E (RangeOrder E (2 * length tms + 1) obj) 0 valueFields'))
      | _ \<Rightarrow> arrayRows E query rest tms hasTimeField valueFields)"

text \<open>
  \<^verbatim>\<open>arrayToDataFrame\<close>; the error it returns is nil on every path. On an empty
  array and on an array whose first element is no object it calls
  \<^verbatim>\<open>data.NewField\<close> on a \<^verbatim>\<open>[]interface{}\<close> before it can build the frame.
\<close>

definition arrayToDataFrame ::
    "('f::zero) env \<Rightarrow> 'f json list \<Rightarrow> DataQuery \<Rightarrow> 'f Frame go" where
  "arrayToDataFrame E arr query =
     (if length arr = 0 then
        (case NewField_interface ''value'' [] [] of
           Panic \<Rightarrow> Panic
         | Return field \<Rightarrow> Return (NewFrame [] [field]))
      else case arr ! 0 of
        JObj first \<Rightarrow>
          (case arrayRows E query arr [] False [] of
             (tms, hasTimeField, valueFields) \<Rightarrow>
               if hasTimeField then
                 Return ((NewFrame [] (NewField ''time'' [] (Times tms) # valueFields))
                   \<lparr>Meta := Some \<lparr>Type = FrameTypeTimeSeriesMany, Custom = None\<rparr>\<rparr>)
               else Return (NewFrame [] valueFields))
      | _ \<Rightarrow>
          (case NewField_interface ''value'' [] arr of
             Panic \<Rightarrow> Panic
           | Return field \<Rightarrow> Return (NewFrame [] [field])))"

text \<open>The loop of lines 271-274 over the keys of the object, in some order.\<close>

fun objectFields :: "(string \<times> 'f json) list \<Rightarrow> 'f Frame \<Rightarrow> 'f Frame go" where
  "objectFields [] frame = Return frame"
| "objectFields ((key, val) # rest) frame =
     (case NewField_interface key [] [val] of
        Panic \<Rightarrow> Panic
      | Return field \<Rightarrow> objectFields rest (frame\<lparr>Fields := Fields frame @ [field]\<rparr>))"

definition objectToDataFrame ::
    "('f::zero) env \<Rightarrow> (string \<times> 'f json) list \<Rightarrow> DataQuery \<Rightarrow> 'f Frame go" where
  "objectToDataFrame E obj query =
     (case map_of obj ''data'' of
        Some (JArr dataArr) \<Rightarrow> arrayToDataFrame E dataArr query
      | _ \<Rightarrow> objectFields obj (NewFrame [] []))"

definition primitiveToDataFrame :: "'f env \<Rightarrow> 'f json \<Rightarrow> DataQuery \<Rightarrow> 'f Frame go" where
  "primitiveToDataFrame E val query =
     (case NewField_interface ''value'' [] [val] of
        Panic \<Rightarrow> Panic
      | Return valueField \<Rightarrow>
          Return (NewFrame [] [NewField ''time'' [] (Times [Now E]), valueField]))"

definition RESTAPIHandler_convertToDataFrames ::
    "('f::zero) env \<Rightarrow> 'f json \<Rightarrow> DataQuery \<Rightarrow> 'f Frame list go" where
  "RESTAPIHandler_convertToDataFrames E jsonData query =
     (case jsonData of
        JArr v \<Rightarrow>
          (case arrayToDataFrame E v query of
             Panic \<Rightarrow> Panic
           | Return frame \<Rightarrow> Return [frame])
      | JObj v \<Rightarrow>
          (case objectToDataFrame E v query of
             Panic \<Rightarrow> Panic
           | Return frame \<Rightarrow> Return [frame])
      | _ \<Rightarrow>
          (case primitiveToDataFrame E jsonData query of
             Panic \<Rightarrow> Panic
           | Return frame \<Rightarrow> Return [frame]))"

definition RESTAPIHandler_executeQuery ::
    "('f::zero) env \<Rightarrow> nat \<Rightarrow> DataSourceConfig \<Rightarrow> DataQuery \<Rightarrow> QueryModel
       \<Rightarrow> 'f DataResponse go" where
  "RESTAPIHandler_executeQuery E i config query queryModel =
     (case restRequest E config queryModel of
        Inl err \<Rightarrow> Return (Inl err)
      | Inr req \<Rightarrow>
          (case Do E i req of
             Inl err \<Rightarrow> Return (Inl (''failed to execute request: '' @ err))
           | Inr resp \<Rightarrow>
               if StatusCode resp < 200 \<or> 300 \<le> StatusCode resp then
                 Return (Inl (''REST API returned status '' @ FormatInt (StatusCode resp)
                                @ '': '' @ RespBody resp))
               else
                 (case ReadErr resp of
                    Some err \<Rightarrow> Return (Inl (''failed to read response: '' @ err))
                  | None \<Rightarrow>
                      (case UnmarshalJSON E (RespBody resp) of
                         Inl err \<Rightarrow> Return (Inl (''failed to parse JSON response: '' @ err))
                       | Inr jsonData \<Rightarrow>
                           (case RESTAPIHandler_convertToDataFrames E jsonData query of
                              Panic \<Rightarrow> Panic
                            | Return frames \<Rightarrow> Return (Inr frames))))))"

definition handleRESTQuery ::
    "('f::zero) env \<Rightarrow> nat \<Rightarrow> DataSourceConfig \<Rightarrow> DataQuery \<Rightarrow> QueryModel
       \<Rightarrow> 'f DataResponse go" where
  "handleRESTQuery E i config query queryModel =
     (if RESTEndpoint queryModel = [] then Return (Inl ''REST endpoint is required'')
      else RESTAPIHandler_executeQuery E i config query queryModel)"

subsection \<open>datasource.go\<close>

text \<open>
  \<^verbatim>\<open>handleQuery\<close>. The metrics and the log handler call \<^verbatim>\<open>data.NewField\<close> on
  \<^verbatim>\<open>[]time.Time\<close>, \<^verbatim>\<open>[]float64\<close> and \<^verbatim>\<open>[]string\<close> only and always return.
\<close>

definition handleQuery ::
    "('f::zero) env \<Rightarrow> nat \<Rightarrow> DataSourceConfig \<Rightarrow> DataQuery \<Rightarrow> 'f DataResponse go" where
  "handleQuery E i config query =
     (case UnmarshalQuery E (JSON query) of
        Inl err \<Rightarrow> Return (Inl (''failed to parse query: '' @ err))
      | Inr parsed \<Rightarrow>
          (let queryModel = parsed\<lparr>RefID_q := RefID query\<rparr>
           in if QueryType queryModel = QueryTypePrometheus
                then Return (handlePrometheusQuery E i config query queryModel)
              else if QueryType queryModel = QueryTypeLoki
                then Return (handleLokiQuery E i config query queryModel)
              else if QueryType queryModel = QueryTypeREST
                then handleRESTQuery E i config query queryModel
              else Return (Inl (''unknown query type: '' @ QueryType queryModel))))"

text \<open>
  \<^verbatim>\<open>QueryData\<close>: the loop over \<^verbatim>\<open>req.Queries\<close>, \<open>i\<close> the position of the
  query, \<open>responses\<close> the map \<^verbatim>\<open>response.Responses\<close>. A query whose handler
  panics ends the loop, and \<^verbatim>\<open>QueryData\<close> with it.
\<close>

fun queryLoop ::
    "('f::zero) env \<Rightarrow> DataSourceConfig \<Rightarrow> nat \<Rightarrow> DataQuery list
       \<Rightarrow> (string \<rightharpoonup> 'f DataResponse) \<Rightarrow> (string \<rightharpoonup> 'f DataResponse) go" where
  "queryLoop E config i [] responses = Return responses"
| "queryLoop E config i (q # rest) responses =
     (case handleQuery E i config q of
        Panic \<Rightarrow> Panic
      | Return res \<Rightarrow> queryLoop E config (Suc i) rest (responses(RefID q \<mapsto> res)))"

definition QueryData ::
    "('f::zero) env \<Rightarrow> DataSourceConfig \<Rightarrow> DataQuery list
       \<Rightarrow> (string \<rightharpoonup> 'f DataResponse) go" where
  "QueryData E config queries = queryLoop E config 0 queries Map.empty"

subsection \<open>Vocabulary of the properties\<close>

text \<open>
  A wire entry \<^verbatim>\<open>[timestamp, "value", ...]\<close> of a range response is well formed when
  its first element is a number and its second a string that parses as a float; a pair is
  the case of no further element. \<open>sampleTime\<close> and \<open>sampleValue\<close> are the row such an
  entry stands for.
\<close>

definition wellFormed :: "'f env \<Rightarrow> 'f json list \<Rightarrow> bool" where
  "wellFormed E val =
     (case val of
        JNum ts # JStr s # others \<Rightarrow> (case ParseFloat E s of Inl err \<Rightarrow> False | Inr v \<Rightarrow> True)
      | _ \<Rightarrow> False)"

definition sampleTime :: "'f env \<Rightarrow> 'f json list \<Rightarrow> gotime" where
  "sampleTime E val =
     (case val of JNum ts # s # others \<Rightarrow> time_Unix (int64 E ts) 0 | _ \<Rightarrow> zeroTime)"

definition sampleValue :: "('f::zero) env \<Rightarrow> 'f json list \<Rightarrow> 'f" where
  "sampleValue E val =
     (case val of
        ts # JStr s # others \<Rightarrow> (case ParseFloat E s of Inl err \<Rightarrow> 0 | Inr v \<Rightarrow> v)
      | _ \<Rightarrow> 0)"

text \<open>The frame of a series whose rows are its wire entries, one by one and in order.\<close>

definition rowsFrame :: "('f::zero) env \<Rightarrow> 'f PrometheusResult \<Rightarrow> 'f Frame" where
  "rowsFrame E result =
     seriesFrame (Metric result)
       (NewField ''time'' [] (Times (map (sampleTime E) (Values result))))
       (NewField ''value'' (Metric result) (Floats (map (sampleValue E) (Values result))))"

text \<open>
  The entries of a log stream that count: two elements or more, and a first element that
  parses as a nanosecond timestamp.
\<close>

definition validEntry :: "string list \<Rightarrow> bool" where
  "validEntry val = (2 \<le> length val \<and> ParseInt (val ! 0) \<noteq> None)"

definition entryTime :: "string list \<Rightarrow> gotime" where
  "entryTime val = (case ParseInt (val ! 0) of Some tsNano \<Rightarrow> time_Unix 0 tsNano | None \<Rightarrow> zeroTime)"

definition entryLine :: "string list \<Rightarrow> string" where
  "entryLine val = val ! 1"

text \<open>The frame of a stream: its valid entries, in order.\<close>

definition logFrame :: "LokiResult \<Rightarrow> 'f Frame" where
  "logFrame result =
     streamFrame (Stream result)
       (map entryTime (filter validEntry (Values_l result)))
       (map entryLine (filter validEntry (Values_l result)))"

text \<open>An element of a REST array that is an object, and one that has a timestamp key.\<close>

definition isObject :: "'f json \<Rightarrow> bool" where
  "isObject item = (case item of JObj obj \<Rightarrow> True | _ \<Rightarrow> False)"

definition hasTimestampKey :: "'f json \<Rightarrow> bool" where
  "hasTimestampKey item =
     (case item of
        JObj obj \<Rightarrow>
          (case findTimestamp obj [''time'', ''timestamp'', ''date'', ''ts'', ''datetime''] of
             Some tsVal \<Rightarrow> True
           | None \<Rightarrow> False)
      | _ \<Rightarrow> False)"

text \<open>The lengths of the fields of a frame, in order.\<close>

definition fieldLengths :: "'f Frame \<Rightarrow> nat list" where
  "fieldLengths frame = map (\<lambda>f. Len (Vals f)) (Fields frame)"

subsection \<open>Concrete inputs\<close>

text \<open>
  An environment to run the handlers in: float64 values are the integers, the network
  answers the first query of a batch with a canned range response of one series, the
  second with the JSON body \<open>[]\<close>, and refuses every other connection, the decoder of a
  query takes the raw payload for the type tag (\<open>{\<close> being a payload that does not
  parse), and every range statement visits a map in the order of its list.
\<close>

definition exampleEnv :: "int env" where
  "exampleEnv =
     \<lparr>UnmarshalQuery =
        (\<lambda>s. if s = ''{'' then Inl ''unexpected end of JSON input''
              else Inr \<lparr>QueryType = s, PromQL = ''up'', LogQL = ''{job=app}'',
                        RESTEndpoint = ''/items'', RESTMethod = [], RESTHeaders_q = [],
                        RESTBody = [], RefID_q = []\<rparr>),
      UnmarshalJSON = (\<lambda>s. if s = ''[]'' then Inr (JArr []) else Inl ''invalid character''),
      DecodePrometheus =
        (\<lambda>r. Inr \<lparr>Status = ''success'', ResultType = ''matrix'',
                    Result = [\<lparr>Metric = [(''__name__'', ''up'')],
                               Values = [[JNum 1700000000, JStr ''1''], [JNum 1700000015, JStr ''0'']],
                               Value = []\<rparr>]\<rparr>),
      DecodeLoki = (\<lambda>r. Inl ''invalid character''),
      ParseFloat = (\<lambda>s. case ParseInt s of None \<Rightarrow> Inl ''invalid syntax'' | Some n \<Rightarrow> Inr n),
      int64 = (\<lambda>x. x),
      gt1e12 = (\<lambda>x. 1000000000000 < x),
      Seconds = (\<lambda>d. d div 1000000000),
      Encode = (\<lambda>params. []),
      ToUpper = (\<lambda>s. s),
      NewRequestErr = (\<lambda>method url. None),
      Do = (\<lambda>i req. if i = 0 then Inr \<lparr>StatusCode = 200, RespBody = [], ReadErr = None\<rparr>
                     else if i = 1 then Inr \<lparr>StatusCode = 200, RespBody = ''[]'', ReadErr = None\<rparr>
                     else Inl ''connection refused''),
      ParseRFC3339 = (\<lambda>s. None),
      Now = 0,
      RangeOrder = (\<lambda>k obj. obj)\<rparr>"

definition exampleConfig :: DataSourceConfig where
  "exampleConfig =
     \<lparr>PrometheusURL = ''http://prom:9090'', LokiURL = ''http://loki:3100'',
      RESTURL = ''http://api'', APIKey = [], BasicAuthUser = [], BasicAuthPass = [],
      BearerToken = [], RESTHeaders = []\<rparr>"


definition exampleQuery :: DataQuery where
  "exampleQuery =
     \<lparr>RefID = ''A'', From = time_Unix 1700000000 0, To = time_Unix 1700003600 0, Interval = 0,
      JSON = ''prometheus''\<rparr>"

definition exampleQueryModel :: QueryModel where
  "exampleQueryModel =
     \<lparr>QueryType = ''rest'', PromQL = ''up'', LogQL = ''{job=app}'', RESTEndpoint = ''/items'',
      RESTMethod = [], RESTHeaders_q = [], RESTBody = [], RefID_q = ''A''\<rparr>"

section \<open>Properties\<close>

subsection \<open>Library facts\<close>




lemma FormatInt_15: "FormatInt 15 = ''15''"
  by code_simp

lemma zeroTime_not_epoch: "zeroTime \<noteq> time_Unix 0 0"
  by (simp add: zeroTime_def time_Unix_def)

subsection \<open>The credential injector\<close>










subsection \<open>The URL of a REST query\<close>

text \<open>
  C7. The claim asks for all trailing separators of the base URL and all leading
  separators of the endpoint to be trimmed, so that one separator joins them.
  \<open>TrimSuffix\<close> and \<open>TrimPrefix\<close> remove one separator each: a base URL ending in two
  slashes still ends in a slash after line 53, whose comment reads "Ensure base URL doesn't
  end with /", and the joined URL has two separators; so has the URL of an endpoint
  that starts with two slashes.
\<close>

theorem fullURL_double_slash:
  "fullURL (exampleConfig\<lparr>RESTURL := ''http://api//''\<rparr>) (exampleQueryModel\<lparr>RESTEndpoint := ''/items''\<rparr>)
     = ''http://api//items''
   \<and> TrimSuffix ''http://api//'' ''/'' = ''http://api/''
   \<and> fullURL (exampleConfig\<lparr>RESTURL := ''http://api''\<rparr>) (exampleQueryModel\<lparr>RESTEndpoint := ''//items''\<rparr>)
     = ''http://api//items''"
  by (simp add: fullURL_def TrimSuffix_def TrimPrefix_def exampleConfig_def exampleQueryModel_def)


subsection \<open>The metrics handler\<close>

lemma stepSeconds_default: "stepSeconds E (15 * Second) = 15"
  by (simp add: stepSeconds_def Second_def)

text \<open>
  C4. The request of a metrics query: when the start of the time range differs from its
  end, it goes to \<open>/api/v1/query_range\<close> with the parameters \<open>query\<close>, \<open>start\<close>, \<open>end\<close>
  (the Unix seconds of the range) and \<open>step\<close>, and with no \<open>time\<close>. The step is \<open>15s\<close>
  when the query's interval is zero; it is the query's own interval otherwise: \<open>n\<close>
  seconds give \<open>ns\<close>, and an interval that is no whole number of seconds gives the float64
  \<^verbatim>\<open>Seconds()\<close> of it, converted to int64. When start and end
  are equal, it goes to \<open>/api/v1/query\<close> with \<open>query\<close> and \<open>time\<close>, the Unix seconds of
  the range end, and no \<open>start\<close>, \<open>end\<close> or \<open>step\<close>. Unless the request cannot be
  created, that GET request, with the credentials added, is the one handed to the client.
\<close>

theorem promRequest_range_or_instant:
  fixes E :: "'f env" and config :: DataSourceConfig and query :: DataQuery
    and queryModel :: QueryModel
  defines "params \<equiv> promParams E query queryModel"
  shows "(From query \<noteq> To query \<longrightarrow>
            promURL config query = PrometheusURL config @ ''/api/v1/query_range''
            \<and> params ''query'' = Some [PromQL queryModel]
            \<and> params ''start'' = Some [FormatInt (Unix (From query))]
            \<and> params ''end'' = Some [FormatInt (Unix (To query))]
            \<and> params ''step'' =
                 Some [if Interval query = 0 then ''15s''
                       else if Interval query mod 1000000000 = 0
                         then FormatInt (Interval query div 1000000000) @ ''s''
                       else FormatInt (int64 E (Seconds E (Interval query))) @ ''s'']
            \<and> (\<forall>n. n \<noteq> 0 \<and> Interval query = n * 1000000000 \<longrightarrow>
                  params ''step'' = Some [FormatInt n @ ''s''])
            \<and> params ''time'' = None)
       \<and> (From query = To query \<longrightarrow>
            promURL config query = PrometheusURL config @ ''/api/v1/query''
            \<and> params ''query'' = Some [PromQL queryModel]
            \<and> params ''time'' = Some [FormatInt (Unix (To query))]
            \<and> params ''start'' = None \<and> params ''end'' = None \<and> params ''step'' = None)
       \<and> (NewRequestErr E ''GET'' (promURL config query @ ''?'' @ Encode E params) = None \<longrightarrow>
            promRequest E config query queryModel =
              Inr (addAuthHeaders config
                     \<lparr>Method = ''GET'', URL = promURL config query @ ''?'' @ Encode E params,
                      Header = Map.empty, Body = None\<rparr>))"
  by (auto simp add: params_def promParams_def promURL_def promRequest_def isRangeQuery_def
      NewRequestWithContext_def Let_def stepSeconds_def Second_def FormatInt_15)

lemma FormatInt_17e8: "FormatInt 1700000000 = ''1700000000''"
  by code_simp

lemma FormatInt_17e8_3600: "FormatInt 1700003600 = ''1700003600''"
  by code_simp

lemma FormatInt_30: "FormatInt 30 = ''30''"
  by code_simp

theorem promRequest_range_or_instant_witness:
  "promURL exampleConfig exampleQuery = ''http://prom:9090/api/v1/query_range''
   \<and> promParams exampleEnv exampleQuery exampleQueryModel ''start'' = Some [''1700000000'']
   \<and> promParams exampleEnv exampleQuery exampleQueryModel ''end'' = Some [''1700003600'']
   \<and> promParams exampleEnv exampleQuery exampleQueryModel ''step'' = Some [''15s'']
   \<and> promParams exampleEnv (exampleQuery\<lparr>Interval := 30000000000\<rparr>) exampleQueryModel ''step''
        = Some [''30s'']
   \<and> promRequest exampleEnv exampleConfig exampleQuery exampleQueryModel
        = Inr \<lparr>Method = ''GET'', URL = ''http://prom:9090/api/v1/query_range?'',
               Header = Map.empty, Body = None\<rparr>
   \<and> promURL exampleConfig (exampleQuery\<lparr>From := time_Unix 1700003600 0\<rparr>)
        = ''http://prom:9090/api/v1/query''
   \<and> promParams exampleEnv (exampleQuery\<lparr>From := time_Unix 1700003600 0\<rparr>) exampleQueryModel ''time''
        = Some [''1700003600'']
   \<and> promParams exampleEnv (exampleQuery\<lparr>From := time_Unix 1700003600 0\<rparr>) exampleQueryModel ''step''
        = None"
proof -
  have 1: "From exampleQuery \<noteq> To exampleQuery"
    by (simp add: exampleQuery_def time_Unix_def)
  have 2: "From (exampleQuery\<lparr>From := time_Unix 1700003600 0\<rparr>)
             = To (exampleQuery\<lparr>From := time_Unix 1700003600 0\<rparr>)"
    by (simp add: exampleQuery_def)
  have u1: "Unix (From exampleQuery) = 1700000000" "Unix (To exampleQuery) = 1700003600"
    "Interval exampleQuery = 0"
    by (simp_all add: exampleQuery_def Unix_def time_Unix_def)
  have u2: "Unix (To (exampleQuery\<lparr>From := time_Unix 1700003600 0\<rparr>)) = 1700003600"
    by (simp add: exampleQuery_def Unix_def time_Unix_def)
  have c: "PrometheusURL exampleConfig = ''http://prom:9090''"
    by (simp add: exampleConfig_def)
  have e: "NewRequestErr exampleEnv = (\<lambda>method url. None)" "Encode exampleEnv = (\<lambda>params. [])"
    by (simp_all add: exampleEnv_def)
  have a: "\<And>req. addAuthHeaders exampleConfig req = req"
    by (simp add: addAuthHeaders_def exampleConfig_def)
  have 3: "From (exampleQuery\<lparr>Interval := 30000000000\<rparr>)
             \<noteq> To (exampleQuery\<lparr>Interval := 30000000000\<rparr>)"
    by (simp add: exampleQuery_def time_Unix_def)
  have s30: "promParams exampleEnv (exampleQuery\<lparr>Interval := 30000000000\<rparr>) exampleQueryModel
               ''step'' = Some [''30s'']"
    using promRequest_range_or_instant [where E = exampleEnv and config = exampleConfig
        and query = "exampleQuery\<lparr>Interval := 30000000000\<rparr>"
        and queryModel = exampleQueryModel] 3
    by (simp add: FormatInt_30)
  show ?thesis
    using s30 promRequest_range_or_instant [where E = exampleEnv and config = exampleConfig
        and query = exampleQuery and queryModel = exampleQueryModel]
      promRequest_range_or_instant [where E = exampleEnv and config = exampleConfig
        and query = "exampleQuery\<lparr>From := time_Unix 1700003600 0\<rparr>"
        and queryModel = exampleQueryModel] 1 2
    by (simp add: u1 u2 c e a FormatInt_17e8 FormatInt_17e8_3600)
qed

lemma wellFormedE:
  assumes "wellFormed E val"
  obtains ts s others v where "val = JNum ts # JStr s # others" "ParseFloat E s = Inr v"
  using assms unfolding wellFormed_def
  by (auto split: list.splits json.splits sum.splits)

lemma rangeValues_step_wellFormed:
  assumes "wellFormed E val"
  shows "rangeValues E i (val # rest) tms values =
           rangeValues E (Suc i) rest (tms[i := sampleTime E val]) (values[i := sampleValue E val])"
proof -
  from assms obtain ts s others v where
    val: "val = JNum ts # JStr s # others" and pf: "ParseFloat E s = Inr v"
    by (rule wellFormedE)
  show ?thesis by (simp add: val pf sampleTime_def sampleValue_def)
qed

lemma rangeValues_step_short:
  "length val < 2 \<Longrightarrow>
   rangeValues E i (val # rest) tms values = rangeValues E (Suc i) rest tms values"
  by simp

lemma rangeValues_map:
  assumes "list_all (\<lambda>val. length val < 2 \<or> wellFormed E val) rest"
    and "length tms = i + length rest" and "length values = i + length rest"
    and "drop i tms = replicate (length rest) zeroTime"
    and "drop i values = replicate (length rest) 0"
  shows "rangeValues E i rest tms values =
           Inr (take i tms @ map (\<lambda>val. if length val < 2 then zeroTime else sampleTime E val) rest,
                take i values @ map (\<lambda>val. if length val < 2 then 0 else sampleValue E val) rest)"
  using assms
proof (induction rest arbitrary: i tms "values")
  case Nil
  then show ?case by simp
next
  case (Cons val rest)
  have lt: "i < length tms" "i < length values" using Cons.prems by simp_all
  have hdt: "tms ! i = zeroTime"
    using Cons.prems(4) lt by (metis Cons_nth_drop_Suc length_Cons list.inject replicate_Suc)
  have hdv: "values ! i = 0"
    using Cons.prems(5) lt by (metis Cons_nth_drop_Suc length_Cons list.inject replicate_Suc)
  have tlt: "drop (Suc i) tms = replicate (length rest) zeroTime"
    using Cons.prems(4) lt by (metis Cons_nth_drop_Suc length_Cons list.inject replicate_Suc)
  have tlv: "drop (Suc i) values = replicate (length rest) 0"
    using Cons.prems(5) lt by (metis Cons_nth_drop_Suc length_Cons list.inject replicate_Suc)
  have all: "list_all (\<lambda>val. length val < 2 \<or> wellFormed E val) rest"
    using Cons.prems(1) by simp
  show ?case
  proof (cases "length val < 2")
    case True
    have "rangeValues E i (val # rest) tms values = rangeValues E (Suc i) rest tms values"
      using True by (rule rangeValues_step_short)
    also have "\<dots> = Inr (take (Suc i) tms @ map (\<lambda>val. if length val < 2 then zeroTime else sampleTime E val) rest,
                take (Suc i) values @ map (\<lambda>val. if length val < 2 then 0 else sampleValue E val) rest)"
      using Cons.prems tlt tlv all by (intro Cons.IH) simp_all
    finally show ?thesis
      using True lt hdt hdv by (simp add: take_Suc_conv_app_nth)
  next
    case False
    then have wf: "wellFormed E val" using Cons.prems(1) by simp
    have "rangeValues E i (val # rest) tms values =
            rangeValues E (Suc i) rest (tms[i := sampleTime E val]) (values[i := sampleValue E val])"
      using wf by (rule rangeValues_step_wellFormed)
    also have "\<dots> = Inr (take (Suc i) (tms[i := sampleTime E val]) @ map (\<lambda>val. if length val < 2 then zeroTime else sampleTime E val) rest,
                take (Suc i) (values[i := sampleValue E val]) @ map (\<lambda>val. if length val < 2 then 0 else sampleValue E val) rest)"
      using Cons.prems tlt tlv all by (intro Cons.IH) simp_all
    finally show ?thesis
      using False lt by (simp add: take_Suc_conv_app_nth)
  qed
qed


lemma resultFrame_range:
  assumes "list_all (\<lambda>val. length val < 2 \<or> wellFormed E val) (Values result)"
  shows "resultFrame E True result =
           Inr (seriesFrame (Metric result)
                  (NewField ''time'' []
                     (Times (map (\<lambda>val. if length val < 2 then zeroTime else sampleTime E val)
                               (Values result))))
                  (NewField ''value'' (Metric result)
                     (Floats (map (\<lambda>val. if length val < 2 then 0 else sampleValue E val)
                                (Values result)))))"
  using rangeValues_map [OF assms, of "replicate (length (Values result)) zeroTime" 0
      "replicate (length (Values result)) 0"]
  by (simp add: resultFrame_def)

lemma fieldLengths_seriesFrame:
  "fieldLengths (seriesFrame metric (NewField a la (Times ts)) (NewField b lb (Floats vs)))
     = [length ts, length vs]"
  by (simp add: fieldLengths_def seriesFrame_def NewFrame_def NewField_def)

lemma convert_range_acc:
  assumes "list_all (\<lambda>r. list_all (\<lambda>val. length val < 2 \<or> wellFormed E val) (Values r)) results"
  shows "PrometheusHandler_convertToDataFrames E results True frames =
           Inr (frames @ map (\<lambda>result. seriesFrame (Metric result)
                  (NewField ''time'' []
                     (Times (map (\<lambda>val. if length val < 2 then zeroTime else sampleTime E val)
                               (Values result))))
                  (NewField ''value'' (Metric result)
                     (Floats (map (\<lambda>val. if length val < 2 then 0 else sampleValue E val)
                                (Values result))))) results)"
  using assms
  by (induction results arbitrary: frames) (simp_all add: resultFrame_range)

lemma list_all_wellFormed_weaken:
  "list_all (wellFormed E) vals \<Longrightarrow> list_all (\<lambda>val. length val < 2 \<or> wellFormed E val) vals"
  by (induction vals) simp_all

lemma wellFormed_length: "wellFormed E val \<Longrightarrow> \<not> length val < 2"
  by (erule wellFormedE) simp

lemma map_wellFormed_time:
  "list_all (wellFormed E) vals \<Longrightarrow>
   map (\<lambda>val. if length val < 2 then zeroTime else sampleTime E val) vals = map (sampleTime E) vals"
  by (induction vals) (auto dest: wellFormed_length)

lemma map_wellFormed_value:
  "list_all (wellFormed E) vals \<Longrightarrow>
   map (\<lambda>val. if length val < 2 then 0 else sampleValue E val) vals = map (sampleValue E) vals"
  by (induction vals) (auto dest: wellFormed_length)

lemma fieldLengths_rowsFrame:
  "fieldLengths (rowsFrame E result) = [length (Values result), length (Values result)]"
  by (simp add: rowsFrame_def fieldLengths_seriesFrame)

text \<open>
  C3. A range response in which every entry of every series is well formed (for a pair:
  a numeric timestamp and a string that parses as a float) converts without error, to one
  frame for each series; the time field and the value field of a series of \<open>N\<close> entries
  have \<open>N\<close> rows each, row \<open>k\<close> being the timestamp and the parsed value of entry \<open>k\<close>.
\<close>

theorem range_response_rows:
  assumes "list_all (\<lambda>result. list_all (wellFormed E) (Values result)) results"
  shows "PrometheusHandler_convertToDataFrames E results True [] = Inr (map (rowsFrame E) results)
       \<and> map (\<lambda>result. fieldLengths (rowsFrame E result)) results
           = map (\<lambda>result. [length (Values result), length (Values result)]) results"
proof -
  have weak: "list_all (\<lambda>r. list_all (\<lambda>val. length val < 2 \<or> wellFormed E val) (Values r)) results"
    using assms by (induction results) (simp_all add: list_all_wellFormed_weaken)
  have same: "map (\<lambda>result. seriesFrame (Metric result)
                  (NewField ''time'' []
                     (Times (map (\<lambda>val. if length val < 2 then zeroTime else sampleTime E val)
                               (Values result))))
                  (NewField ''value'' (Metric result)
                     (Floats (map (\<lambda>val. if length val < 2 then 0 else sampleValue E val)
                                (Values result))))) results = map (rowsFrame E) results"
    using assms
    by (induction results)
       (simp_all add: rowsFrame_def map_wellFormed_time map_wellFormed_value)
  show ?thesis
    using convert_range_acc [OF weak, of "[]"] by (simp add: same fieldLengths_rowsFrame)
qed

lemma ParseInt_1: "ParseInt ''1'' = Some 1"
  by code_simp

lemma ParseInt_0: "ParseInt ''0'' = Some 0"
  by code_simp

theorem range_response_rows_witness:
  "PrometheusHandler_convertToDataFrames exampleEnv
     [\<lparr>Metric = [(''__name__'', ''up'')],
       Values = [[JNum 1700000000, JStr ''1''], [JNum 1700000015, JStr ''0'']],
       Value = []\<rparr>] True []
   = Inr [seriesFrame [(''__name__'', ''up'')]
            (NewField ''time'' [] (Times [time_Unix 1700000000 0, time_Unix 1700000015 0]))
            (NewField ''value'' [(''__name__'', ''up'')] (Floats [1, 0]))]"
proof -
  let ?r = "\<lparr>Metric = [(''__name__'', ''up'')],
       Values = [[JNum 1700000000, JStr ''1''], [JNum (1700000015::int), JStr ''0'']],
       Value = []\<rparr>"
  have pf: "ParseFloat exampleEnv ''1'' = Inr 1" "ParseFloat exampleEnv ''0'' = Inr 0"
    by (simp_all add: exampleEnv_def ParseInt_1 ParseInt_0)
  have wf: "list_all (\<lambda>result. list_all (wellFormed exampleEnv) (Values result)) [?r]"
    by (simp add: wellFormed_def pf)
  show ?thesis
    using range_response_rows [OF wf]
    by (simp add: rowsFrame_def sampleTime_def sampleValue_def pf) (simp add: exampleEnv_def)
qed

text \<open>
  C9, as amended. An entry of fewer than two elements does not fail the conversion and is
  not removed: when every other entry is well formed, the frame has one row for each wire
  entry, and the row of a short entry holds the zero \<open>time.Time\<close> and the value 0. The
  zero \<open>time.Time\<close> is January 1 of year 1, 62135596800 seconds before the Unix epoch.
\<close>

theorem short_entry_keeps_zero_row:
  assumes "list_all (\<lambda>val. length val < 2 \<or> wellFormed E val) (Values result)"
  shows "resultFrame E True result =
           Inr (seriesFrame (Metric result)
                  (NewField ''time'' []
                     (Times (map (\<lambda>val. if length val < 2 then zeroTime else sampleTime E val)
                               (Values result))))
                  (NewField ''value'' (Metric result)
                     (Floats (map (\<lambda>val. if length val < 2 then 0 else sampleValue E val)
                                (Values result)))))
       \<and> (\<forall>frame. resultFrame E True result = Inr frame \<longrightarrow>
             fieldLengths frame = [length (Values result), length (Values result)])
       \<and> Unix zeroTime = - 62135596800"
proof -
  have z: "Unix zeroTime = - 62135596800"
    by (simp add: Unix_def zeroTime_def time_Unix_def)
  show ?thesis
    using resultFrame_range [OF assms] by (simp add: fieldLengths_seriesFrame z)
qed

theorem short_entry_keeps_zero_row_witness:
  "resultFrame exampleEnv True
     \<lparr>Metric = [], Values = [[JNum 1700000000, JStr ''1''], [JNum 1700000015], []], Value = []\<rparr>
   = Inr (seriesFrame []
            (NewField ''time'' [] (Times [time_Unix 1700000000 0, zeroTime, zeroTime]))
            (NewField ''value'' [] (Floats [1, 0, 0])))"
proof -
  let ?r = "\<lparr>Metric = [],
       Values = [[JNum 1700000000, JStr ''1''], [JNum (1700000015::int)], []], Value = []\<rparr>"
  have pf: "ParseFloat exampleEnv ''1'' = Inr 1"
    by (simp add: exampleEnv_def ParseInt_1)
  have wf: "list_all (\<lambda>val. length val < 2 \<or> wellFormed exampleEnv val) (Values ?r)"
    by (simp add: wellFormed_def pf)
  show ?thesis
    using short_entry_keeps_zero_row [OF wf]
    by (simp add: sampleTime_def sampleValue_def pf) (simp add: exampleEnv_def)
qed

text \<open>
  C9, as stated, has the row of a short entry hold the Unix epoch. The row of the
  one-element entry below holds the zero \<open>time.Time\<close>, which is another instant.
\<close>

theorem zero_row_is_not_the_epoch:
  "resultFrame exampleEnv True \<lparr>Metric = [], Values = [[JNum 1700000015]], Value = []\<rparr>
     = Inr (seriesFrame [] (NewField ''time'' [] (Times [zeroTime]))
              (NewField ''value'' [] (Floats [0])))
   \<and> zeroTime \<noteq> time_Unix 0 0"
  by (simp add: resultFrame_def zeroTime_not_epoch)

subsection \<open>The log handler\<close>

lemma logValues_filter:
  "logValues vals tms values =
     (tms @ map entryTime (filter validEntry vals), values @ map entryLine (filter validEntry vals))"
proof (induction vals arbitrary: tms "values")
  case Nil
  then show ?case by simp
next
  case (Cons val rest)
  show ?case
  proof (cases "length val < 2")
    case True
    then show ?thesis by (simp add: Cons.IH validEntry_def)
  next
    case False
    then show ?thesis
      by (cases "ParseInt (val ! 0)") (simp_all add: Cons.IH validEntry_def entryTime_def entryLine_def)
  qed
qed

lemma convert_log_acc:
  "LokiHandler_convertToDataFrames results frames =
     Inr (frames @ map logFrame (filter (\<lambda>result. filter validEntry (Values_l result) \<noteq> []) results))"
  by (induction results arbitrary: frames) (simp_all add: logValues_filter logFrame_def)

text \<open>
  C6. The conversion of a log response never fails. Its frames are those of the streams
  that have a valid entry, in order, and the rows of a frame are the valid entries of its
  stream, in order: an entry of fewer than two elements and an entry whose timestamp does
  not parse contribute nothing, and a stream left with no entry contributes no frame.
\<close>

theorem log_entries_skipped:
  "LokiHandler_convertToDataFrames results [] =
     Inr (map logFrame (filter (\<lambda>result. filter validEntry (Values_l result) \<noteq> []) results))
   \<and> map (\<lambda>result. fieldLengths (logFrame result :: 'f Frame)) results
       = map (\<lambda>result. [length (filter validEntry (Values_l result)),
                         length (filter validEntry (Values_l result))]) results"
  by (simp add: convert_log_acc logFrame_def fieldLengths_def streamFrame_def NewFrame_def
      NewField_def)

lemma ParseInt_ns: "ParseInt ''1700000000000000000'' = Some 1700000000000000000"
  by code_simp

lemma ParseInt_soon: "ParseInt ''soon'' = None"
  by code_simp

lemma ParseInt_17: "ParseInt ''17'' = Some 17"
  by code_simp

theorem log_entries_skipped_witness:
  "LokiHandler_convertToDataFrames
     [\<lparr>Stream = [(''job'', ''app'')],
       Values_l = [[''1700000000000000000'', ''started''], [''soon'', ''x''], [''17'']]\<rparr>,
      \<lparr>Stream = [(''job'', ''db'')], Values_l = [[''17''], [''soon'', ''y'']]\<rparr>] []
   = Inr [streamFrame [(''job'', ''app'')] [time_Unix 0 1700000000000000000] [''started'']
            :: int Frame]"
  using log_entries_skipped [where ?'f = int and results =
     "[\<lparr>Stream = [(''job'', ''app'')],
       Values_l = [[''1700000000000000000'', ''started''], [''soon'', ''x''], [''17'']]\<rparr>,
      \<lparr>Stream = [(''job'', ''db'')], Values_l = [[''17''], [''soon'', ''y'']]\<rparr>]"]
  by (simp add: logFrame_def validEntry_def entryTime_def entryLine_def ParseInt_ns ParseInt_soon
      ParseInt_17)

subsection \<open>The REST handler\<close>

lemma arrayRows_object:
  "\<exists>timestamp fs. arrayRows E query (JObj obj # rest) tms hasTimeField valueFields =
     arrayRows E query rest (tms @ [timestamp]) (hasTimeField \<or> hasTimestampKey (JObj obj)) fs"
  by (cases "findTimestamp obj [''time'', ''timestamp'', ''date'', ''ts'', ''datetime'']")
     (auto simp add: hasTimestampKey_def Let_def simp del: findTimestamp.simps)

lemma arrayRows_no_object:
  "\<not> isObject item \<Longrightarrow>
   arrayRows E query (item # rest) tms hasTimeField valueFields =
     arrayRows E query rest tms hasTimeField valueFields
   \<and> \<not> hasTimestampKey item"
  by (cases item) (simp_all add: isObject_def hasTimestampKey_def)

lemma arrayRows_state:
  "arrayRows E query arr tms hasTimeField valueFields = (tms', hasTimeField', valueFields') \<Longrightarrow>
   length tms' = length tms + length (filter isObject arr)
   \<and> hasTimeField' = (hasTimeField \<or> list_ex hasTimestampKey arr)"
proof (induction arr arbitrary: tms hasTimeField valueFields)
  case Nil
  then show ?case by simp
next
  case (Cons item rest)
  show ?case
  proof (cases "isObject item")
    case True
    then obtain obj where item: "item = JObj obj"
      by (cases item) (simp_all add: isObject_def)
    obtain timestamp fs where step:
      "arrayRows E query (JObj obj # rest) tms hasTimeField valueFields =
         arrayRows E query rest (tms @ [timestamp]) (hasTimeField \<or> hasTimestampKey (JObj obj)) fs"
      using arrayRows_object by blast
    have "arrayRows E query rest (tms @ [timestamp]) (hasTimeField \<or> hasTimestampKey (JObj obj)) fs
            = (tms', hasTimeField', valueFields')"
      using Cons.prems step item by simp
    from Cons.IH [OF this] show ?thesis
      using True item by auto
  next
    case False
    have "arrayRows E query rest tms hasTimeField valueFields = (tms', hasTimeField', valueFields')"
      using Cons.prems arrayRows_no_object [OF False] by simp
    from Cons.IH [OF this] show ?thesis
      using False arrayRows_no_object [OF False] by auto
  qed
qed

lemma arrayToDataFrame_time_series:
  assumes "list_all isObject arr" and "list_ex hasTimestampKey arr"
  shows "\<exists>tms valueFields.
           arrayToDataFrame E arr query =
             Return ((NewFrame [] (NewField ''time'' [] (Times tms) # valueFields))
                       \<lparr>Meta := Some \<lparr>Type = FrameTypeTimeSeriesMany, Custom = None\<rparr>\<rparr>)
           \<and> length tms = length arr"
proof -
  obtain first rest where arr: "arr = first # rest"
    using assms(2) by (cases arr) simp_all
  obtain obj where first: "first = JObj obj"
    using assms(1) arr by (cases first) (simp_all add: isObject_def)
  obtain tms has vfs where rows: "arrayRows E query arr [] False [] = (tms, has, vfs)"
    by (cases "arrayRows E query arr [] False []") auto
  have all: "filter isObject arr = arr"
    using assms(1) by (simp add: list_all_iff)
  have st: "length tms = length arr" "has"
    using arrayRows_state [OF rows] assms(2) all by simp_all
  have "arrayToDataFrame E arr query =
          Return ((NewFrame [] (NewField ''time'' [] (Times tms) # vfs))
            \<lparr>Meta := Some \<lparr>Type = FrameTypeTimeSeriesMany, Custom = None\<rparr>\<rparr>)"
    using rows st(2) unfolding arrayToDataFrame_def by (simp add: arr first)
  then show ?thesis using st(1) by blast
qed

text \<open>
  C1. An array of objects with a timestamp key in some row does become a frame tagged
  time-series whose time field has one row for each object (the lemma above). The
  numeric fields are filled by position from the numeric entries each row happens to
  have, so a row without one leaves its field a row short: below, the time field has two
  rows and the field \<open>cpu\<close> one. (No row below has two numeric entries, so the order in
  which a row's entries are visited plays no part.)
\<close>

theorem arrayToDataFrame_ragged:
  "arrayToDataFrame exampleEnv
     [JObj [(''time'', JNum 1700000000), (''cpu'', JNum 5)], JObj [(''time'', JNum 1700000060)]]
     exampleQuery
   = Return ((NewFrame []
        [NewField ''time'' [] (Times [time_Unix 1700000000 0, time_Unix 1700000060 0]),
         NewField ''cpu'' [] (Floats [5])])
       \<lparr>Meta := Some \<lparr>Type = FrameTypeTimeSeriesMany, Custom = None\<rparr>\<rparr>)
   \<and> fieldLengths ((NewFrame []
        [NewField ''time'' [] (Times [time_Unix 1700000000 0, time_Unix 1700000060 0]),
         NewField ''cpu'' [] (Floats [5::int])])
       \<lparr>Meta := Some \<lparr>Type = FrameTypeTimeSeriesMany, Custom = None\<rparr>\<rparr>) = [2, 1]"
  by (simp add: arrayToDataFrame_def parseTimestamp_def isTimeKey_def isNumeric_def
      toFloat64_def Append_def NewField_def NewFrame_def fieldLengths_def exampleEnv_def)

text \<open>
  The same frame comes out whatever order each range statement picks: a row of two
  entries is visited in list order or in the reverse, \<open>flip k\<close> saying which for range
  statement \<open>k\<close>, and a row of one entry has one order.
\<close>

lemma arrayToDataFrame_ragged_any_order:
  "arrayToDataFrame (exampleEnv\<lparr>RangeOrder := (\<lambda>k obj. if flip k then rev obj else obj)\<rparr>)
     [JObj [(''time'', JNum 1700000000), (''cpu'', JNum 5)], JObj [(''time'', JNum 1700000060)]]
     exampleQuery
   = Return ((NewFrame []
        [NewField ''time'' [] (Times [time_Unix 1700000000 0, time_Unix 1700000060 0]),
         NewField ''cpu'' [] (Floats [5])])
       \<lparr>Meta := Some \<lparr>Type = FrameTypeTimeSeriesMany, Custom = None\<rparr>\<rparr>)"
  by (cases "flip 0"; cases "flip (Suc 0)")
     (simp_all add: arrayToDataFrame_def parseTimestamp_def isTimeKey_def isNumeric_def
        toFloat64_def Append_def NewField_def NewFrame_def exampleEnv_def)

text \<open>
  C8. The claim has every header of \<open>Config.RESTHeaders\<close> attached to the request of a
  REST query. \<open>restRequest\<close> never reads that field (the lemma below): with \<open>X-Tenant\<close>
  configured for the data source and no header on the query, the request leaves with no
  header at all.
\<close>

theorem restRequest_without_config_headers:
  "restRequest exampleEnv (exampleConfig\<lparr>RESTHeaders := [(''X-Tenant'', ''acme'')]\<rparr>)
     exampleQueryModel
   = Inr \<lparr>Method = ''GET'', URL = ''http://api/items'', Header = Map.empty, Body = None\<rparr>"
  by (simp add: restRequest_def restMethod_def bodyReader_def fullURL_def TrimSuffix_def
      TrimPrefix_def NewRequestWithContext_def Header_Get_def addAuthHeaders_def
      exampleEnv_def exampleConfig_def exampleQueryModel_def)

lemma restRequest_ignores_RESTHeaders:
  "restRequest E (config\<lparr>RESTHeaders := hs\<rparr>) queryModel = restRequest E config queryModel"
proof -
  have ignore: "\<And>req. addAuthHeaders (config\<lparr>RESTHeaders := hs\<rparr>) req = addAuthHeaders config req"
    by (simp add: addAuthHeaders_def)
  show ?thesis
    by (simp add: restRequest_def fullURL_def ignore Let_def split: sum.splits)
qed

subsection \<open>The query router\<close>

lemma queryLoop_Panic:
  "queryLoop E config i queries responses = Panic
     \<longleftrightarrow> (\<exists>j<length queries. handleQuery E (i + j) config (queries ! j) = Panic)"
proof (induction queries arbitrary: i responses)
  case Nil
  then show ?case by simp
next
  case (Cons q rest)
  show ?case
  proof (cases "handleQuery E i config q")
    case Panic
    then have "handleQuery E (i + 0) config ((q # rest) ! 0) = Panic" by simp
    then have "\<exists>j<length (q # rest). handleQuery E (i + j) config ((q # rest) ! j) = Panic"
      by (intro exI [of _ 0]) simp
    then show ?thesis using Panic by simp
  next
    case (Return res)
    have "(\<exists>j<length (q # rest). handleQuery E (i + j) config ((q # rest) ! j) = Panic)
            \<longleftrightarrow> (\<exists>j<length rest. handleQuery E (Suc i + j) config (rest ! j) = Panic)"
      using Return by (auto simp: less_Suc_eq_0_disj)
    then show ?thesis using Return Cons.IH [of "Suc i"] by simp
  qed
qed

lemma queryLoop_other:
  "queryLoop E config i queries responses = Return m \<Longrightarrow> k \<notin> set (map RefID queries) \<Longrightarrow>
   m k = responses k"
proof (induction queries arbitrary: i responses)
  case Nil
  then show ?case by simp
next
  case (Cons q rest)
  then show ?case by (cases "handleQuery E i config q") (auto split: if_splits)
qed

lemma queryLoop_dom:
  "queryLoop E config i queries responses = Return m \<Longrightarrow>
   dom m = dom responses \<union> set (map RefID queries)"
proof (induction queries arbitrary: i responses)
  case Nil
  then show ?case by simp
next
  case (Cons q rest)
  show ?case
  proof (cases "handleQuery E i config q")
    case Panic
    then show ?thesis using Cons.prems by simp
  next
    case (Return res)
    then have "queryLoop E config (Suc i) rest (responses(RefID q \<mapsto> res)) = Return m"
      using Cons.prems by simp
    from Cons.IH [OF this] show ?thesis by auto
  qed
qed

lemma queryLoop_nth:
  "queryLoop E config i queries responses = Return m \<Longrightarrow> distinct (map RefID queries) \<Longrightarrow>
   j < length queries \<Longrightarrow>
   handleQuery E (i + j) config (queries ! j) = Return res \<Longrightarrow>
   m (RefID (queries ! j)) = Some res"
proof (induction queries arbitrary: i j responses)
  case Nil
  then show ?case by simp
next
  case (Cons q rest)
  show ?case
  proof (cases "handleQuery E i config q")
    case Panic
    then show ?thesis using Cons.prems(1) by simp
  next
    case (Return res0)
    then have loop: "queryLoop E config (Suc i) rest (responses(RefID q \<mapsto> res0)) = Return m"
      using Cons.prems(1) by simp
    show ?thesis
    proof (cases j)
      case 0
      have "RefID q \<notin> set (map RefID rest)" using Cons.prems(2) by simp
      from queryLoop_other [OF loop this] show ?thesis
        using 0 Return Cons.prems(4) by simp
    next
      case (Suc j')
      then show ?thesis
        using Cons.prems Cons.IH [OF loop, of j'] by simp
    qed
  qed
qed

text \<open>
  What the router does: the batch has a result exactly when no query's handler panics;
  the result then has, for identifiers that are pairwise distinct, one entry for each
  query, the response of its own handler. One panic and no query has an entry.
\<close>

lemma QueryData_Panic:
  "QueryData E config queries = Panic
     \<longleftrightarrow> (\<exists>j<length queries. handleQuery E j config (queries ! j) = Panic)"
  using queryLoop_Panic [of E config 0 queries Map.empty] by (simp add: QueryData_def)

lemma QueryData_Return:
  assumes "QueryData E config queries = Return m" and "distinct (map RefID queries)"
  shows "dom m = set (map RefID queries)"
    and "card (dom m) = length queries"
    and "j < length queries \<Longrightarrow> handleQuery E j config (queries ! j) = Return res \<Longrightarrow>
         m (RefID (queries ! j)) = Some res"
proof -
  have loop: "queryLoop E config 0 queries Map.empty = Return m"
    using assms(1) by (simp add: QueryData_def)
  show d: "dom m = set (map RefID queries)"
    using queryLoop_dom [OF loop] by simp
  show "card (dom m) = length queries"
    using distinct_card [OF assms(2)] by (simp add: d)
  show "m (RefID (queries ! j)) = Some res"
    if "j < length queries" "handleQuery E j config (queries ! j) = Return res"
    using queryLoop_nth [OF loop assms(2) that(1)] that(2) by simp
qed

lemma handleQuery_unknown:
  "UnmarshalQuery E (JSON query) = Inr parsed \<Longrightarrow>
   QueryType parsed \<noteq> ''prometheus'' \<Longrightarrow> QueryType parsed \<noteq> ''loki'' \<Longrightarrow>
   QueryType parsed \<noteq> ''rest'' \<Longrightarrow>
   handleQuery E i config query = Return (Inl (''unknown query type: '' @ QueryType parsed))"
  by (simp add: handleQuery_def QueryTypePrometheus_def QueryTypeLoki_def QueryTypeREST_def)

lemma handleQuery_example_A:
  "handleQuery exampleEnv 0 exampleConfig exampleQuery
     = Return (Inr [seriesFrame [(''__name__'', ''up'')]
              (NewField ''time'' [] (Times [time_Unix 1700000000 0, time_Unix 1700000015 0]))
              (NewField ''value'' [(''__name__'', ''up'')] (Floats [1, 0]))])"
  by (simp add: handleQuery_def handlePrometheusQuery_def PrometheusHandler_executeQuery_def
      promRequest_def NewRequestWithContext_def resultFrame_def isRangeQuery_def
      QueryTypePrometheus_def exampleEnv_def exampleConfig_def exampleQuery_def time_Unix_def
      ParseInt_1 ParseInt_0)

lemma handleQuery_example_B:
  "handleQuery exampleEnv 1 exampleConfig (exampleQuery\<lparr>RefID := ''B'', JSON := ''rest''\<rparr>)
     = Panic"
  by (simp add: handleQuery_def handleRESTQuery_def RESTAPIHandler_executeQuery_def
      RESTAPIHandler_convertToDataFrames_def arrayToDataFrame_def NewField_interface_def
      restRequest_def restMethod_def bodyReader_def fullURL_def NewRequestWithContext_def
      Header_Get_def QueryTypePrometheus_def QueryTypeLoki_def QueryTypeREST_def
      exampleEnv_def exampleConfig_def)

text \<open>
  C2. The claim gives every query of a batch its own entry, whatever happens to the
  others. Below, query \<open>A\<close> is a metrics query that succeeds and query \<open>B\<close> a REST query
  whose backend answers \<open>[]\<close> with status 200. \<open>arrayToDataFrame\<close> means to return a frame
  with one empty field for the empty array, but calls \<^verbatim>\<open>data.NewField\<close> on a
  \<^verbatim>\<open>[]interface{}\<close> for it, which panics: the handler of \<open>B\<close> does not return, and
  \<open>QueryData\<close> has no result for the batch, so none for \<open>A\<close> either.
\<close>

theorem QueryData_panics_on_empty_array:
  "handleQuery exampleEnv 0 exampleConfig exampleQuery
     = Return (Inr [seriesFrame [(''__name__'', ''up'')]
              (NewField ''time'' [] (Times [time_Unix 1700000000 0, time_Unix 1700000015 0]))
              (NewField ''value'' [(''__name__'', ''up'')] (Floats [1, 0]))])
   \<and> handleQuery exampleEnv 1 exampleConfig (exampleQuery\<lparr>RefID := ''B'', JSON := ''rest''\<rparr>)
       = Panic
   \<and> QueryData exampleEnv exampleConfig
       [exampleQuery, exampleQuery\<lparr>RefID := ''B'', JSON := ''rest''\<rparr>] = Panic"
proof -
  have b: "handleQuery exampleEnv (Suc 0) exampleConfig
             (exampleQuery\<lparr>RefID := ''B'', JSON := ''rest''\<rparr>) = Panic"
    using handleQuery_example_B by simp
  show ?thesis
    by (simp add: QueryData_def handleQuery_example_A b)
qed

end
